theory Spec2Isabelle
  imports Main
begin

section \<open>Data model\<close>

text \<open>
  A fetched entry of the content source. The scripts read only \<open>entry.sys.id\<close> and
  \<open>entry.fields.name\<close>; the whole entry is the body of the document that is written.
\<close>

record item =
  sys_id :: string
  item_fields :: "(string \<times> string) list"

definition fields_name :: "item \<Rightarrow> string option" where
  "fields_name entry = map_of (item_fields entry) ''name''"

text \<open>
  A JavaScript exception. The only one the scripts can raise by themselves is the
  \<open>TypeError\<close> of reading a property of \<open>undefined\<close>.
\<close>

datatype js_error = TypeError

text \<open>
  The document writes the scripts issue. \<open>ClientCreate index type id body\<close> is
  \<open>esClient.create({index, type, id, body})\<close> of the canonical script;
  \<open>PutDoc url index id body\<close> is the request
  \<open>PUT ${url}/${index}/_doc/${id}\<close> with the JSON body of the older scripts.
\<close>

datatype doc_call =
    ClientCreate string string string item
  | PutDoc string string string item

text \<open>The lines the scripts print, with the glyph (good or bad) as a boolean.\<close>

datatype logline =
    Banner
  | InfoTable
  | EnvVars bool
  | ScriptParams bool
  | ConnectES bool
  | HealthDump
  | Retrieve bool
  | Found bool nat
  | SummaryTable "(string \<times> string option) list"
  | ExistingIndex bool
  | ResetNotice
  | Deleted bool
  | AutoCreated bool
  | NoCreateIndex
  | ErrMessage
  | Posted bool int nat
  | Finished
  | Aborting

text \<open>
  What a run does, in order. A remote call is recorded with its outcome, at the point where
  the awaited promise has settled: \<open>None\<close> (or \<open>False\<close>) is a rejected promise,
  which the \<open>.catch\<close> handler of the call turns into \<open>undefined\<close>.
  \<open>ErrorDetail\<close> is a \<open>console.error(e)\<close>. \<open>OutputHelp\<close> is the usage text,
  \<open>OutputVersion\<close> and \<open>ParseErrorMessage\<close> are what commander prints for
  \<open>-V\<close> and for a command line it refuses.
\<close>

datatype event =
    OutputHelp
  | OutputVersion
  | ParseErrorMessage
  | ProcessExit nat
  | Log logline
  | ErrorDetail
  | ClusterHealth bool
  | HttpGetHealth string bool
  | GetEntries nat nat string "item list option"
  | IndicesExists string "bool option"
  | IndicesDelete string "bool option"
  | IndicesCreate string "bool option"
  | HttpGetIndex string string "string option"
  | HttpPutIndex string string bool
  | DocWrite doc_call bool

text \<open>
  The two remote systems are the environment of a run. Every call but the document write
  is issued at most once in a run, so its outcome is one value of the environment:
  \<^item> \<open>health_resp\<close>: the health probe resolved with a truthy value;
  \<^item> \<open>entries_resp\<close>: \<open>getEntries\<close> resolved with \<open>{items}\<close>, or rejected;
  \<^item> \<open>exists_resp\<close>: \<open>indices.exists\<close> resolved with a boolean, or rejected;
  \<^item> \<open>delete_resp\<close>, \<open>create_resp\<close>: \<open>indices.delete\<close> and
    \<open>indices.create\<close> resolved with \<open>{acknowledged}\<close>, or rejected;
  \<^item> \<open>index_get_resp\<close>, \<open>index_put_resp\<close>: the index requests of
    research-hub-sync.js (\<open>GET url/index\<close> resolving with a body, \<open>PUT url/index\<close>
    resolving with a truthy value);
  \<^item> \<open>doc_write\<close>: the destination's answer to a document write, as a transition of
    the destination's state \<open>'d\<close>: \<open>True\<close> when the promise resolves.
\<close>

record 'd environment =
  health_resp :: bool
  entries_resp :: "item list option"
  exists_resp :: "bool option"
  delete_resp :: "bool option"
  create_resp :: "bool option"
  index_get_resp :: "string option"
  index_put_resp :: bool
  doc_write :: "'d \<Rightarrow> doc_call \<Rightarrow> bool \<times> 'd"

text \<open>
  What commander leaves in \<open>program\<close> after \<open>parse(process.argv)\<close>:
  the positional arguments and the options (\<open>createIndex\<close> is true unless
  \<open>--no-create-index\<close> is given).
\<close>

record cli =
  args :: "string list"
  verbose :: bool
  summary :: bool
  reset :: bool
  createIndex :: bool
  env_opt :: "string option"
  index_opt :: "string option"

text \<open>
  What \<open>.parse(process.argv)\<close> (line 22 of the canonical script, line 21 of
  research-hub-sync.js) does. Commander either returns, with \<open>program\<close> filled in,
  or ends the process itself: for \<open>--help\<close> or \<open>-h\<close> it prints the usage and
  exits with status 0; for \<open>-V\<close> or \<open>--version\<close> it prints the version and exits
  with status 0; for an unknown option, and for an option that lacks its argument, it
  prints an error message and exits with status 1. Which command lines lead to which
  outcome is commander's matter; the outcome is an input of the run.
\<close>

datatype parse_outcome =
    Parsed cli
  | HelpRequested
  | VersionRequested
  | UnknownOption
  | MissingOptionArgument

text \<open>The variables the scripts read from \<open>process.env\<close>.\<close>

record process_env =
  CONTENTFUL_SPACE_ID :: "string option"
  CONTENTFUL_ACCESS_TOKEN :: "string option"
  ELASTICSEARCH_HOST_var :: "string option"
  ELASTICSEARCH_PORT_var :: "string option"
  ELASTICSEARCH_URL_var :: "string option"

text \<open>
  The constants of a script, resolved once at start-up.
\<close>

record params =
  SPACE_ID :: "string option"
  ACCESS_TOKEN :: "string option"
  ELASTICSEARCH_HOST :: string
  ELASTICSEARCH_PORT :: string
  ELASTICSEARCH_URL :: "string option"
  CONTENT_TYPE :: string
  ENVIRONMENT :: string
  INDEX_NAME :: string
  VERBOSE :: bool
  SUMMARY :: bool
  CREATE_INDEX :: bool
  RESET :: bool

section \<open>JavaScript helpers\<close>

text \<open>A string or \<open>undefined\<close> is truthy when it is a non-empty string.\<close>

definition truthy :: "string option \<Rightarrow> bool" where
  "truthy v = (case v of None \<Rightarrow> False | Some s \<Rightarrow> s \<noteq> [])"

text \<open>\<open>v || d\<close> on a string or \<open>undefined\<close>.\<close>

definition js_or :: "string option \<Rightarrow> string \<Rightarrow> string" where
  "js_or v d = (case v of None \<Rightarrow> d | Some s \<Rightarrow> if s = [] then d else s)"

text \<open>\<open>argv[i]\<close>: \<open>undefined\<close> beyond the end of the array.\<close>

definition argv_at :: "string list \<Rightarrow> nat \<Rightarrow> string option" where
  "argv_at argv i = (if i < length argv then Some (argv ! i) else None)"

text \<open>A string or \<open>undefined\<close> inside a template string.\<close>

definition js_template :: "string option \<Rightarrow> string" where
  "js_template v = (case v of None \<Rightarrow> ''undefined'' | Some s \<Rightarrow> s)"

section \<open>Library calls\<close>

text \<open>
  \<open>contentful.createClient({space, environment, accessToken})\<close> checks its
  parameters before anything else: it throws a \<open>TypeError\<close> when \<open>accessToken\<close>
  is missing or empty, then when \<open>space\<close> is. Otherwise it returns a client object
  (truthy) without issuing a request. \<open>new elasticsearch.Client\<close> returns a client
  object without issuing a request.
\<close>

definition createClient :: "string option \<Rightarrow> string option \<Rightarrow> js_error + unit" where
  "createClient space accessToken =
     (if \<not> truthy accessToken then Inl TypeError
      else if \<not> truthy space then Inl TypeError
      else Inr ())"

section \<open>The canonical script (src/unnamed/part 000)\<close>

text \<open>
  Lines 29 to 42. \<open>changeCase.paramCase\<close> is a library function: it is the
  parameter \<open>paramCase\<close>. The constants are read after the argument check, so
  \<open>program.args[0]\<close> is there; the empty case below is never reached.
\<close>

definition resolve :: "(string \<Rightarrow> string) \<Rightarrow> process_env \<Rightarrow> cli \<Rightarrow> params" where
  "resolve paramCase vars c =
     (let content_type = (case args c of [] \<Rightarrow> [] | a # _ \<Rightarrow> a);
          environment = js_or (env_opt c) ''master''
      in \<lparr> SPACE_ID = CONTENTFUL_SPACE_ID vars,
           ACCESS_TOKEN = CONTENTFUL_ACCESS_TOKEN vars,
           ELASTICSEARCH_HOST = js_or (ELASTICSEARCH_HOST_var vars) ''localhost'',
           ELASTICSEARCH_PORT = js_or (ELASTICSEARCH_PORT_var vars) ''9200'',
           ELASTICSEARCH_URL = ELASTICSEARCH_URL_var vars,
           CONTENT_TYPE = content_type,
           ENVIRONMENT = environment,
           INDEX_NAME = js_or (index_opt c)
             (''research-hub-'' @ environment @ ''-'' @ paramCase content_type),
           VERBOSE = verbose c,
           SUMMARY = summary c,
           CREATE_INDEX = createIndex c,
           RESET = reset c \<rparr>)"

text \<open>Lines 44 to 56.\<close>

definition logTable :: "item list \<Rightarrow> event list" where
  "logTable items = [Log (SummaryTable (map (\<lambda>entry. (sys_id entry, fields_name entry)) items))]"

text \<open>
  Lines 108 to 119, the publish loop: one awaited \<open>esClient.create\<close> per item, in the
  order of the page; a rejected write prints its message and adds one to \<open>fails\<close>.
\<close>

fun postLoop ::
  "'d environment \<Rightarrow> params \<Rightarrow> item list \<Rightarrow> nat \<Rightarrow> 'd \<Rightarrow> event list \<times> nat \<times> 'd" where
  "postLoop env p [] fails d = ([], fails, d)"
| "postLoop env p (entry # items) fails d =
     (let c = ClientCreate (INDEX_NAME p) ''_doc'' (sys_id entry) entry;
          (ok, d1) = doc_write env d c;
          (t, fails2, d2) = postLoop env p items (if ok then fails else fails + 1) d1
      in (DocWrite c ok # (if ok then [] else [Log ErrMessage]) @ t, fails2, d2))"

text \<open>
  Lines 69 to 76: the delete of \<open>--reset\<close>. A rejected delete leaves \<open>res\<close>
  undefined, and \<open>res.acknowledged\<close> throws.
\<close>

definition resetIndex :: "'d environment \<Rightarrow> params \<Rightarrow> bool \<Rightarrow> event list \<times> (js_error + unit)" where
  "resetIndex env p esIndexExists =
     (if RESET p \<and> esIndexExists then
        (let res = delete_resp env;
             t = [Log ResetNotice, IndicesDelete (INDEX_NAME p) res]
                 @ (if res = None \<and> VERBOSE p then [ErrorDetail] else [])
         in case res of
              None \<Rightarrow> (t, Inl TypeError)
            | Some acknowledged \<Rightarrow> (t @ [Log (Deleted acknowledged)], Inr ()))
      else ([], Inr ()))"

text \<open>
  Lines 79 to 88: create the index, or return 1 when it is absent and must not be created.
  The result \<open>Some 1\<close> is the early \<open>return 1\<close>; \<open>None\<close> falls through to the loop.
\<close>

definition createIndexStep ::
  "'d environment \<Rightarrow> params \<Rightarrow> bool \<Rightarrow> event list \<times> (js_error + nat option)" where
  "createIndexStep env p esIndexExists =
     (if (CREATE_INDEX p \<and> \<not> esIndexExists) \<or> RESET p then
        (let esIndexCreate = create_resp env;
             t = [IndicesCreate (INDEX_NAME p) esIndexCreate]
                 @ (if esIndexCreate = None \<and> VERBOSE p then [ErrorDetail] else [])
         in case esIndexCreate of
              None \<Rightarrow> (t, Inl TypeError)
            | Some acknowledged \<Rightarrow> (t @ [Log (AutoCreated acknowledged)], Inr None))
      else if \<not> esIndexExists then ([Log NoCreateIndex], Inr (Some 1))
      else ([], Inr None))"

text \<open>Lines 58 to 124.\<close>

definition postItems ::
  "'d environment \<Rightarrow> params \<Rightarrow> item list \<Rightarrow> 'd \<Rightarrow> event list \<times> (js_error + nat) \<times> 'd" where
  "postItems env p items d =
     (let ex = exists_resp env;
          esIndexExists = (ex = Some True);
          t1 = [IndicesExists (INDEX_NAME p) ex]
               @ (if ex = None \<and> VERBOSE p then [ErrorDetail] else [])
               @ [Log (ExistingIndex esIndexExists)]
      in case resetIndex env p esIndexExists of
           (t2, Inl e) \<Rightarrow> (t1 @ t2, Inl e, d)
         | (t2, Inr u) \<Rightarrow>
             (case createIndexStep env p esIndexExists of
                (t3, Inl e) \<Rightarrow> (t1 @ t2 @ t3, Inl e, d)
              | (t3, Inr (Some r)) \<Rightarrow> (t1 @ t2 @ t3, Inr r, d)
              | (t3, Inr None) \<Rightarrow>
                  (case postLoop env p items 0 d of
                     (t4, fails, d2) \<Rightarrow>
                       (t1 @ t2 @ t3 @ t4
                          @ [Log (Posted (fails = 0) (int (length items) - int fails) fails)],
                        Inr fails, d2))))"

text \<open>Lines 126 to 155.\<close>

definition doSync ::
  "'d environment \<Rightarrow> params \<Rightarrow> 'd \<Rightarrow> event list \<times> (js_error + nat) \<times> 'd" where
  "doSync env p d =
     (let response = entries_resp env;
          t1 = [GetEntries 0 1000 (CONTENT_TYPE p) response]
               @ (if response = None \<and> VERBOSE p then [ErrorDetail] else [])
               @ [Log (Retrieve (response \<noteq> None))]
               @ (case response of
                    None \<Rightarrow> []
                  | Some items \<Rightarrow> [Log (Found (length items > 0) (length items))])
      in case response of
           None \<Rightarrow> (t1 @ [Log Aborting], Inr 1, d)
         | Some items \<Rightarrow>
             if length items > 0 then
               (case postItems env p items d of
                  (t2, r, d2) \<Rightarrow> (t1 @ (if SUMMARY p then logTable items else []) @ t2, r, d2))
             else (t1 @ [Log Aborting], Inr 1, d))"

text \<open>
  Lines 172 to 214, the body of the asynchronous main function. The line about the
  environment variables is printed first; then \<open>createClient\<close> (line 177) may throw.
  A client object is truthy, so the test of line 201 is the test of \<open>esHealth\<close>.
  \<open>process.exit\<close> ends the process at once; an exception, of \<open>createClient\<close> or
  out of \<open>doSync\<close>, reaches the \<open>catch\<close> of line 210, which prints it when
  \<open>VERBOSE\<close> and lets the function return.
\<close>

definition main :: "'d environment \<Rightarrow> params \<Rightarrow> 'd \<Rightarrow> event list \<times> 'd" where
  "main env p d =
     (let t0 = [Log (EnvVars (truthy (SPACE_ID p) \<and> truthy (ACCESS_TOKEN p)
                      \<and> ELASTICSEARCH_HOST p \<noteq> [] \<and> ELASTICSEARCH_PORT p \<noteq> []))];
          esHealth = health_resp env;
          t1 = [ClusterHealth esHealth]
               @ (if \<not> esHealth \<and> VERBOSE p then [ErrorDetail] else [])
               @ [Log (ConnectES esHealth)]
      in case createClient (SPACE_ID p) (ACCESS_TOKEN p) of
           Inl e \<Rightarrow> (t0 @ (if VERBOSE p then [ErrorDetail] else []), d)
         | Inr contentfulClient \<Rightarrow>
             if esHealth then
               (case doSync env p d of
                  (t2, Inr status, d2) \<Rightarrow>
                    (t0 @ t1 @ (if VERBOSE p then [Log HealthDump] else []) @ t2
                       @ [ProcessExit (if status \<noteq> 0 then 1 else 0)], d2)
                | (t2, Inl e, d2) \<Rightarrow>
                    (t0 @ t1 @ (if VERBOSE p then [Log HealthDump] else []) @ t2
                       @ (if VERBOSE p then [ErrorDetail] else []), d2))
             else (t0 @ t1 @ [Log Aborting, ProcessExit 1], d))"

text \<open>
  The module once \<open>.parse\<close> has returned: the argument check of lines 24 to 27, the
  banner and the table of lines 157 to 167, then the main function.
\<close>

definition script ::
  "(string \<Rightarrow> string) \<Rightarrow> 'd environment \<Rightarrow> process_env \<Rightarrow> cli \<Rightarrow> 'd \<Rightarrow> event list \<times> 'd" where
  "script paramCase env vars c d =
     (if length (args c) \<noteq> 1 then ([OutputHelp, ProcessExit 1], d)
      else (case main env (resolve paramCase vars c) d of
              (t, d2) \<Rightarrow> (Log Banner # Log InfoTable # t, d2)))"

text \<open>
  The module from top to bottom, for an outcome of the \<open>.parse\<close> of lines 11 to 22:
  either commander has ended the process, or the rest of the module runs.
\<close>

definition invoke ::
  "(string \<Rightarrow> string) \<Rightarrow> 'd environment \<Rightarrow> process_env \<Rightarrow> parse_outcome \<Rightarrow> 'd
     \<Rightarrow> event list \<times> 'd" where
  "invoke paramCase env vars po d =
     (case po of
        Parsed c \<Rightarrow> script paramCase env vars c d
      | HelpRequested \<Rightarrow> ([OutputHelp, ProcessExit 0], d)
      | VersionRequested \<Rightarrow> ([OutputVersion, ProcessExit 0], d)
      | UnknownOption \<Rightarrow> ([ParseErrorMessage, ProcessExit 1], d)
      | MissingOptionArgument \<Rightarrow> ([ParseErrorMessage, ProcessExit 1], d))"

section \<open>The script with the index check over HTTP (src/research-hub-sync.js, lines 1 to 183)\<close>

text \<open>
  Lines 28 to 39 define the constants as the canonical script does, without the host, the
  port and \<open>RESET\<close>, which this script never reads: \<open>resolve\<close> serves both.
  Lines 87 to 101, the publish loop: one awaited \<open>PUT url/index/_doc/id\<close> per item.
\<close>

fun postLoop_research_hub_sync ::
  "'d environment \<Rightarrow> params \<Rightarrow> item list \<Rightarrow> nat \<Rightarrow> 'd \<Rightarrow> event list \<times> nat \<times> 'd" where
  "postLoop_research_hub_sync env p [] fails d = ([], fails, d)"
| "postLoop_research_hub_sync env p (entry # items) fails d =
     (let c = PutDoc (js_template (ELASTICSEARCH_URL p)) (INDEX_NAME p) (sys_id entry) entry;
          (ok, d1) = doc_write env d c;
          (t, fails2, d2) =
            postLoop_research_hub_sync env p items (if ok then fails else fails + 1) d1
      in (DocWrite c ok # (if \<not> ok \<and> VERBOSE p then [ErrorDetail] else []) @ t, fails2, d2))"

text \<open>
  Lines 55 to 106. The index exists when the \<open>GET\<close> resolved with a string; no
  result is dereferenced, so nothing throws.
\<close>

definition postItems_research_hub_sync ::
  "'d environment \<Rightarrow> params \<Rightarrow> item list \<Rightarrow> 'd \<Rightarrow> event list \<times> nat \<times> 'd" where
  "postItems_research_hub_sync env p items d =
     (let url = js_template (ELASTICSEARCH_URL p);
          esIndexGet = index_get_resp env;
          indexExists = (esIndexGet \<noteq> None);
          t1 = [HttpGetIndex url (INDEX_NAME p) esIndexGet]
               @ (if esIndexGet = None \<and> VERBOSE p then [ErrorDetail] else [])
               @ [Log (ExistingIndex (truthy esIndexGet))]
      in if CREATE_INDEX p \<and> \<not> indexExists then
           (let esIndexCreate = index_put_resp env;
                t2 = [HttpPutIndex url (INDEX_NAME p) esIndexCreate]
                     @ (if \<not> esIndexCreate \<and> VERBOSE p then [ErrorDetail] else [])
                     @ [Log (AutoCreated esIndexCreate)]
            in case postLoop_research_hub_sync env p items 0 d of
                 (t3, fails, d2) \<Rightarrow>
                   (t1 @ t2 @ t3
                      @ [Log (Posted (fails = 0) (int (length items) - int fails) fails)],
                    fails, d2))
         else if \<not> indexExists then (t1 @ [Log NoCreateIndex], 1, d)
         else
           (case postLoop_research_hub_sync env p items 0 d of
              (t3, fails, d2) \<Rightarrow>
                (t1 @ t3 @ [Log (Posted (fails = 0) (int (length items) - int fails) fails)],
                 fails, d2)))"

text \<open>Lines 108 to 137.\<close>

definition doSync_research_hub_sync ::
  "'d environment \<Rightarrow> params \<Rightarrow> 'd \<Rightarrow> event list \<times> nat \<times> 'd" where
  "doSync_research_hub_sync env p d =
     (let response = entries_resp env;
          t1 = [GetEntries 0 1000 (CONTENT_TYPE p) response]
               @ (if response = None \<and> VERBOSE p then [ErrorDetail] else [])
               @ [Log (Retrieve (response \<noteq> None))]
               @ (case response of
                    None \<Rightarrow> []
                  | Some items \<Rightarrow> [Log (Found (length items > 0) (length items))])
      in case response of
           None \<Rightarrow> (t1 @ [Log Aborting], 1, d)
         | Some items \<Rightarrow>
             if length items > 0 then
               (case postItems_research_hub_sync env p items d of
                  (t2, r, d2) \<Rightarrow> (t1 @ (if SUMMARY p then logTable items else []) @ t2, r, d2))
             else (t1 @ [Log Aborting], 1, d))"

text \<open>
  Lines 153 to 183. Here \<open>createClient\<close> (line 156) comes first in the \<open>try\<close>
  block: when it throws, nothing of the block is printed but the exception (when
  \<open>VERBOSE\<close>), and the function returns.
\<close>

definition main_research_hub_sync :: "'d environment \<Rightarrow> params \<Rightarrow> 'd \<Rightarrow> event list \<times> 'd" where
  "main_research_hub_sync env p d =
     (let t0 = [Log (EnvVars (truthy (SPACE_ID p) \<and> truthy (ACCESS_TOKEN p)
                      \<and> truthy (ELASTICSEARCH_URL p)))];
          esHealth = health_resp env;
          t1 = [HttpGetHealth (js_template (ELASTICSEARCH_URL p)) esHealth]
               @ (if \<not> esHealth \<and> VERBOSE p then [ErrorDetail] else [])
               @ [Log (ConnectES esHealth)]
      in case createClient (SPACE_ID p) (ACCESS_TOKEN p) of
           Inl e \<Rightarrow> (if VERBOSE p then [ErrorDetail] else [], d)
         | Inr client \<Rightarrow>
             if esHealth then
               (case doSync_research_hub_sync env p d of
                  (t2, status, d2) \<Rightarrow>
                    (t0 @ t1 @ t2 @ [ProcessExit (if status \<noteq> 0 then 1 else 0)], d2))
             else (t0 @ t1 @ [Log Aborting, ProcessExit 1], d))"

text \<open>
  The module once \<open>.parse\<close> has returned: the argument check of lines 23 to 26, the
  banner, the main function; then the module for an outcome of \<open>.parse\<close>.
\<close>

definition script_research_hub_sync ::
  "(string \<Rightarrow> string) \<Rightarrow> 'd environment \<Rightarrow> process_env \<Rightarrow> cli \<Rightarrow> 'd \<Rightarrow> event list \<times> 'd" where
  "script_research_hub_sync paramCase env vars c d =
     (if length (args c) \<noteq> 1 then ([OutputHelp, ProcessExit 1], d)
      else (case main_research_hub_sync env (resolve paramCase vars c) d of
              (t, d2) \<Rightarrow> (Log Banner # Log InfoTable # t, d2)))"

definition invoke_research_hub_sync ::
  "(string \<Rightarrow> string) \<Rightarrow> 'd environment \<Rightarrow> process_env \<Rightarrow> parse_outcome \<Rightarrow> 'd
     \<Rightarrow> event list \<times> 'd" where
  "invoke_research_hub_sync paramCase env vars po d =
     (case po of
        Parsed c \<Rightarrow> script_research_hub_sync paramCase env vars c d
      | HelpRequested \<Rightarrow> ([OutputHelp, ProcessExit 0], d)
      | VersionRequested \<Rightarrow> ([OutputVersion, ProcessExit 0], d)
      | UnknownOption \<Rightarrow> ([ParseErrorMessage, ProcessExit 1], d)
      | MissingOptionArgument \<Rightarrow> ([ParseErrorMessage, ProcessExit 1], d))"

section \<open>The first script (src/index.js)\<close>

text \<open>
  Lines 13 to 21. The script reads \<open>process.argv\<close> itself and has a default for each
  of the three parameters; the two flags are constants.
\<close>

definition CONTENT_TYPE_index_js :: "string list \<Rightarrow> string" where
  "CONTENT_TYPE_index_js argv = js_or (argv_at argv 2) ''contentItem''"

definition INDEX_NAME_index_js :: "string list \<Rightarrow> string" where
  "INDEX_NAME_index_js argv = js_or (argv_at argv 3) ''research-hub-master-articles''"

definition ENVIRONMENT_index_js :: "string list \<Rightarrow> string" where
  "ENVIRONMENT_index_js argv = js_or (argv_at argv 4) ''master''"

definition VERBOSE_index_js :: bool where
  "VERBOSE_index_js = True"

definition QUIET_index_js :: bool where
  "QUIET_index_js = False"

text \<open>Lines 41 to 55, the publish loop.\<close>

fun postLoop_index_js ::
  "'d environment \<Rightarrow> process_env \<Rightarrow> string list \<Rightarrow> item list \<Rightarrow> nat \<Rightarrow> 'd
     \<Rightarrow> event list \<times> nat \<times> 'd" where
  "postLoop_index_js env vars argv [] fails d = ([], fails, d)"
| "postLoop_index_js env vars argv (entry # items) fails d =
     (let c = PutDoc (js_template (ELASTICSEARCH_URL_var vars)) (INDEX_NAME_index_js argv)
                (sys_id entry) entry;
          (ok, d1) = doc_write env d c;
          (t, fails2, d2) =
            postLoop_index_js env vars argv items (if ok then fails else fails + 1) d1
      in (DocWrite c ok # (if \<not> ok \<and> \<not> QUIET_index_js then [ErrorDetail] else []) @ t,
          fails2, d2))"

text \<open>Lines 39 to 60: the function prints the count of failures and returns nothing.\<close>

definition postItems_index_js ::
  "'d environment \<Rightarrow> process_env \<Rightarrow> string list \<Rightarrow> item list \<Rightarrow> 'd \<Rightarrow> event list \<times> 'd" where
  "postItems_index_js env vars argv items d =
     (case postLoop_index_js env vars argv items 0 d of
        (t, fails, d2) \<Rightarrow>
          (t @ [Log (Posted (fails = 0) (int (length items) - int fails) fails), Log Finished],
           d2))"

text \<open>Lines 62 to 90.\<close>

definition doSync_index_js ::
  "'d environment \<Rightarrow> process_env \<Rightarrow> string list \<Rightarrow> 'd \<Rightarrow> event list \<times> 'd" where
  "doSync_index_js env vars argv d =
     (let response = entries_resp env;
          t1 = [GetEntries 0 1000 (CONTENT_TYPE_index_js argv) response]
               @ (if response = None \<and> \<not> QUIET_index_js then [ErrorDetail] else [])
               @ [Log (Retrieve (response \<noteq> None))]
               @ (case response of
                    None \<Rightarrow> []
                  | Some items \<Rightarrow> [Log (Found (length items > 0) (length items))])
      in case response of
           None \<Rightarrow> (t1 @ [Log Aborting], d)
         | Some items \<Rightarrow>
             if length items > 0 then
               (case postItems_index_js env vars argv items d of
                  (t2, d2) \<Rightarrow>
                    (t1 @ (if VERBOSE_index_js then logTable items else []) @ t2, d2))
             else (t1 @ [Log Aborting], d))"

text \<open>
  Lines 94 to 137: the banner, the table and the main function. \<open>createClient\<close>
  (line 111) comes first in the \<open>try\<close> block; when it throws, the \<open>catch\<close> of
  line 133 prints the exception (\<open>QUIET\<close> is false) and the function returns. No
  branch calls \<open>process.exit\<close>.
\<close>

definition script_index_js ::
  "'d environment \<Rightarrow> process_env \<Rightarrow> string list \<Rightarrow> 'd \<Rightarrow> event list \<times> 'd" where
  "script_index_js env vars argv d =
     (let t0 = [Log (EnvVars (truthy (CONTENTFUL_SPACE_ID vars)
                      \<and> truthy (CONTENTFUL_ACCESS_TOKEN vars)
                      \<and> truthy (ELASTICSEARCH_URL_var vars))),
                Log (ScriptParams (CONTENT_TYPE_index_js argv \<noteq> []
                      \<and> INDEX_NAME_index_js argv \<noteq> [] \<and> ENVIRONMENT_index_js argv \<noteq> []))];
          esHealth = health_resp env;
          t1 = [HttpGetHealth (js_template (ELASTICSEARCH_URL_var vars)) esHealth]
               @ (if \<not> esHealth \<and> \<not> QUIET_index_js then [ErrorDetail] else [])
               @ [Log (ConnectES esHealth)]
      in case createClient (CONTENTFUL_SPACE_ID vars) (CONTENTFUL_ACCESS_TOKEN vars) of
           Inl e \<Rightarrow>
             ([Log Banner, Log InfoTable] @ (if \<not> QUIET_index_js then [ErrorDetail] else []), d)
         | Inr client \<Rightarrow>
             if esHealth then
               (case doSync_index_js env vars argv d of
                  (t2, d2) \<Rightarrow> ([Log Banner, Log InfoTable] @ t0 @ t1 @ t2, d2))
             else ([Log Banner, Log InfoTable] @ t0 @ t1 @ [Log Aborting], d))"

section \<open>The destination's document writes\<close>

text \<open>
  The search engine is not part of the repository; the scripts reach it through the two
  writes of \<open>doc_call\<close>. Its documents are a map from index and id to body, and the two
  writes follow the engine's document API:
  \<^item> the client's \<open>create\<close> stores the body when the index has no document of that
    id, and is rejected (a version conflict) when it has one, leaving it as it was;
  \<^item> \<open>PUT index/_doc/id\<close> stores the body under the id, new or not
    (create or replace).
\<close>

type_synonym es_docs = "string \<times> string \<Rightarrow> item option"

fun es_doc_write :: "es_docs \<Rightarrow> doc_call \<Rightarrow> bool \<times> es_docs" where
  "es_doc_write docs (ClientCreate index_name doc_type doc_id body) =
     (if docs (index_name, doc_id) = None
      then (True, docs((index_name, doc_id) \<mapsto> body))
      else (False, docs))"
| "es_doc_write docs (PutDoc url index_name doc_id body) =
     (True, docs((index_name, doc_id) \<mapsto> body))"

section \<open>Observations on a run\<close>

text \<open>The calls of \<open>process.exit\<close> in a run, with their arguments.\<close>

fun exit_calls :: "event list \<Rightarrow> nat list" where
  "exit_calls [] = []"
| "exit_calls (ProcessExit n # t) = n # exit_calls t"
| "exit_calls (e # t) = exit_calls t"

text \<open>
  The exit status of the process: the argument of \<open>process.exit\<close>, and 0 when the run
  ends without calling it (the main function returns, nothing is left to do, and node
  exits normally).
\<close>

definition exit_status :: "event list \<Rightarrow> nat" where
  "exit_status t = (case exit_calls t of [] \<Rightarrow> 0 | n # _ \<Rightarrow> n)"

text \<open>The document writes of a run, in the order they were issued.\<close>

fun doc_calls :: "event list \<Rightarrow> doc_call list" where
  "doc_calls [] = []"
| "doc_calls (DocWrite c ok # t) = c # doc_calls t"
| "doc_calls (e # t) = doc_calls t"

text \<open>The source fetches of a run: skip, limit and content type of each.\<close>

fun fetch_calls :: "event list \<Rightarrow> (nat \<times> nat \<times> string) list" where
  "fetch_calls [] = []"
| "fetch_calls (GetEntries skip limit ct r # t) = (skip, limit, ct) # fetch_calls t"
| "fetch_calls (e # t) = fetch_calls t"

text \<open>The events that are requests to one of the two remote systems.\<close>

fun is_network :: "event \<Rightarrow> bool" where
  "is_network OutputHelp = False"
| "is_network OutputVersion = False"
| "is_network ParseErrorMessage = False"
| "is_network (ProcessExit n) = False"
| "is_network (Log l) = False"
| "is_network ErrorDetail = False"
| "is_network e = True"

fun is_delete :: "event \<Rightarrow> bool" where
  "is_delete (IndicesDelete n r) = True"
| "is_delete e = False"

fun is_create :: "event \<Rightarrow> bool" where
  "is_create (IndicesCreate n r) = True"
| "is_create e = False"

fun is_doc_write :: "event \<Rightarrow> bool" where
  "is_doc_write (DocWrite c ok) = True"
| "is_doc_write e = False"

text \<open>An index delete or index create whose promise was rejected.\<close>

fun index_call_rejected :: "event \<Rightarrow> bool" where
  "index_call_rejected (IndicesDelete n None) = True"
| "index_call_rejected (IndicesCreate n None) = True"
| "index_call_rejected e = False"

text \<open>
  \<open>happens_before A B t\<close>: in the run \<open>t\<close> no event of kind \<open>B\<close> occurs until an
  event of kind \<open>A\<close> has occurred. The events of a run are in the order in which the
  awaited calls settled, and the script issues a call only after the one before it has
  settled.
\<close>

fun happens_before :: "(event \<Rightarrow> bool) \<Rightarrow> (event \<Rightarrow> bool) \<Rightarrow> event list \<Rightarrow> bool" where
  "happens_before A B [] = True"
| "happens_before A B (e # t) = (if A e then True else \<not> B e \<and> happens_before A B t)"

text \<open>
  Both credentials of the content source are set, so that \<open>createClient\<close> returns.
\<close>

definition credentials_set :: "process_env \<Rightarrow> bool" where
  "credentials_set vars =
     (truthy (CONTENTFUL_SPACE_ID vars) \<and> truthy (CONTENTFUL_ACCESS_TOKEN vars))"

text \<open>
  The invocations that end up without a positional argument: \<open>.parse\<close> returned and
  \<open>program.args\<close> is empty, or commander ended the process inside \<open>.parse\<close>
  (whatever the command line held).
\<close>

fun no_positional :: "parse_outcome \<Rightarrow> bool" where
  "no_positional (Parsed c) = (args c = [])"
| "no_positional po = True"

text \<open>
  The guards on the way to the publish loop of \<open>postItems\<close> (line 108): the delete of
  line 71, when issued, resolved; the create of line 80, when issued, resolved; and the
  early return of line 87 was not taken.
\<close>

definition publish_path :: "'d environment \<Rightarrow> params \<Rightarrow> bool" where
  "publish_path env p =
     (let esIndexExists = (exists_resp env = Some True)
      in (if RESET p \<and> esIndexExists then delete_resp env \<noteq> None else True)
         \<and> (if (CREATE_INDEX p \<and> \<not> esIndexExists) \<or> RESET p then create_resp env \<noteq> None
            else esIndexExists))"

section \<open>Sample inputs\<close>

text \<open>
  The page of two items of the specification's examples, a command line with the content
  type alone, and an environment in which every call resolves; \<open>sample_env\<close> takes the
  destination's answer to a document write.
\<close>

definition item_a :: item where
  "item_a = \<lparr> sys_id = ''a'', item_fields = [(''name'', ''Foo'')] \<rparr>"

definition item_b :: item where
  "item_b = \<lparr> sys_id = ''b'', item_fields = [(''name'', ''Bar'')] \<rparr>"

definition accept_all :: "unit \<Rightarrow> doc_call \<Rightarrow> bool \<times> unit" where
  "accept_all d c = (True, d)"

definition reject_all :: "unit \<Rightarrow> doc_call \<Rightarrow> bool \<times> unit" where
  "reject_all d c = (False, d)"

definition sample_env :: "('d \<Rightarrow> doc_call \<Rightarrow> bool \<times> 'd) \<Rightarrow> 'd environment" where
  "sample_env w = \<lparr> health_resp = True, entries_resp = Some [item_a, item_b],
     exists_resp = Some True, delete_resp = Some True, create_resp = Some True,
     index_get_resp = Some ''{}'', index_put_resp = True, doc_write = w \<rparr>"

definition sample_cli :: cli where
  "sample_cli = \<lparr> args = [''article''], verbose = False, summary = False, reset = False,
     createIndex = True, env_opt = None, index_opt = None \<rparr>"

definition sample_vars :: process_env where
  "sample_vars = \<lparr> CONTENTFUL_SPACE_ID = Some ''space'',
     CONTENTFUL_ACCESS_TOKEN = Some ''token'',
     ELASTICSEARCH_HOST_var = None, ELASTICSEARCH_PORT_var = None,
     ELASTICSEARCH_URL_var = Some ''http://localhost:9200'' \<rparr>"

definition sample_params :: params where
  "sample_params = resolve id sample_vars sample_cli"

text \<open>
  A second version of item \<open>a\<close>, and the index after one run of the canonical script
  has published the sample page into an empty index.
\<close>

definition item_a_v2 :: item where
  "item_a_v2 = \<lparr> sys_id = ''a'', item_fields = [(''name'', ''Foo v2'')] \<rparr>"

definition published_once :: es_docs where
  "published_once = snd (script id (sample_env es_doc_write) sample_vars sample_cli Map.empty)"

section \<open>Facts about the observations\<close>

lemma exit_calls_append: "exit_calls (a @ b) = exit_calls a @ exit_calls b"
  by (induction a rule: exit_calls.induct) simp_all

lemma doc_calls_append: "doc_calls (a @ b) = doc_calls a @ doc_calls b"
  by (induction a rule: doc_calls.induct) simp_all


lemmas sample_defs = item_a_def item_b_def accept_all_def reject_all_def sample_env_def
  sample_cli_def sample_vars_def sample_params_def

lemmas script_defs = script_def main_def createClient_def doSync_def postItems_def resetIndex_def
  createIndexStep_def logTable_def resolve_def js_or_def js_template_def truthy_def
  fields_name_def exit_status_def Let_def

section \<open>The publish loop of the canonical script\<close>

lemma postLoop_Cons:
  "postLoop env p (entry # items) f d =
     (let c = ClientCreate (INDEX_NAME p) ''_doc'' (sys_id entry) entry;
          r = doc_write env d c;
          rest = postLoop env p items (if fst r then f else f + 1) (snd r)
      in (DocWrite c (fst r) # (if fst r then [] else [Log ErrMessage]) @ fst rest,
          fst (snd rest), snd (snd rest)))"
  by (simp add: Let_def split: prod.splits)

lemma postLoop_doc_calls:
  "doc_calls (fst (postLoop env p items f d)) =
     map (\<lambda>entry. ClientCreate (INDEX_NAME p) ''_doc'' (sys_id entry) entry) items"
  by (induction items arbitrary: f d) (simp_all add: postLoop_Cons Let_def del: postLoop.simps(2))

lemma postLoop_exit_calls: "exit_calls (fst (postLoop env p items f d)) = []"
  by (induction items arbitrary: f d) (simp_all add: postLoop_Cons Let_def del: postLoop.simps(2))


lemma postLoop_not_rejected: "\<not> list_ex index_call_rejected (fst (postLoop env p items f d))"
  by (induction items arbitrary: f d) (simp_all add: postLoop_Cons Let_def del: postLoop.simps(2))


section \<open>The paths through postItems\<close>

lemma postItems_on_path:
  assumes "publish_path env p"
  shows "\<exists>pre. postItems env p items d =
           (pre @ fst (postLoop env p items 0 d)
              @ [Log (Posted (fst (snd (postLoop env p items 0 d)) = 0)
                    (int (length items) - int (fst (snd (postLoop env p items 0 d))))
                    (fst (snd (postLoop env p items 0 d))))],
            Inr (fst (snd (postLoop env p items 0 d))),
            snd (snd (postLoop env p items 0 d)))
         \<and> doc_calls pre = [] \<and> exit_calls pre = [] \<and> fetch_calls pre = []
         \<and> \<not> list_ex index_call_rejected pre"
  using assms
  by (cases "exists_resp env = Some True"; cases "RESET p"; cases "CREATE_INDEX p";
      cases "delete_resp env"; cases "create_resp env")
     (simp_all add: postItems_def publish_path_def resetIndex_def createIndexStep_def Let_def
        split: prod.splits)

lemma postItems_off_path:
  assumes "\<not> publish_path env p"
  shows "\<exists>t r. postItems env p items d = (t, r, d)
         \<and> doc_calls t = [] \<and> exit_calls t = [] \<and> fetch_calls t = []
         \<and> (r = Inl TypeError \<and> list_ex index_call_rejected t
            \<or> r = Inr 1 \<and> \<not> list_ex index_call_rejected t
               \<and> \<not> RESET p \<and> \<not> CREATE_INDEX p \<and> exists_resp env \<noteq> Some True)"
  using assms
  by (cases "exists_resp env = Some True"; cases "RESET p"; cases "CREATE_INDEX p";
      cases "delete_resp env"; cases "create_resp env")
     (simp_all add: postItems_def publish_path_def resetIndex_def createIndexStep_def Let_def
        split: prod.splits)


section \<open>The whole run of the canonical script\<close>

lemma createClient_resolve:
  "createClient (SPACE_ID (resolve paramCase vars c)) (ACCESS_TOKEN (resolve paramCase vars c)) =
     (if credentials_set vars then Inr () else Inl TypeError)"
  by (simp add: resolve_def Let_def createClient_def credentials_set_def)

lemma script_no_client:
  assumes "length (args c) = 1" and "\<not> credentials_set vars"
  shows "script paramCase env vars c d =
           ([Log Banner, Log InfoTable, Log (EnvVars False)]
              @ (if verbose c then [ErrorDetail] else []), d)"
  using assms
  by (auto simp: script_def main_def Let_def createClient_resolve)
     (auto simp: resolve_def Let_def credentials_set_def)

lemma script_abort_runs:
  assumes "length (args c) \<noteq> 1 \<or> \<not> credentials_set vars \<or> \<not> health_resp env
           \<or> entries_resp env = None \<or> entries_resp env = Some []"
  shows "\<exists>t. script paramCase env vars c d = (t, d)
           \<and> exit_calls t = (if length (args c) = 1 \<and> \<not> credentials_set vars then [] else [1])
           \<and> doc_calls t = []
           \<and> \<not> list_ex index_call_rejected t
           \<and> \<not> list_ex is_create t \<and> \<not> list_ex is_doc_write t
           \<and> fetch_calls t = (if length (args c) = 1 \<and> credentials_set vars \<and> health_resp env
                then [(0, 1000, CONTENT_TYPE (resolve paramCase vars c))] else [])"
proof (cases "length (args c) = 1 \<and> \<not> credentials_set vars")
  case True
  then show ?thesis
    by (simp add: script_no_client)
next
  case False
  with assms show ?thesis
    by (cases "length (args c) = 1"; cases "health_resp env"; cases "entries_resp env")
       (auto simp: script_def main_def doSync_def Let_def createClient_resolve)
qed

lemma script_post_runs:
  assumes "length (args c) = 1" "credentials_set vars" "health_resp env"
    "entries_resp env = Some items" "items \<noteq> []"
  shows "\<exists>pre. script paramCase env vars c d =
           (pre @ fst (postItems env (resolve paramCase vars c) items d)
              @ (case fst (snd (postItems env (resolve paramCase vars c) items d)) of
                   Inr status \<Rightarrow> [ProcessExit (if status \<noteq> 0 then 1 else 0)]
                 | Inl e \<Rightarrow> if VERBOSE (resolve paramCase vars c) then [ErrorDetail] else []),
            snd (snd (postItems env (resolve paramCase vars c) items d)))
         \<and> doc_calls pre = [] \<and> exit_calls pre = []
         \<and> fetch_calls pre = [(0, 1000, CONTENT_TYPE (resolve paramCase vars c))]
         \<and> \<not> list_ex index_call_rejected pre
         \<and> \<not> list_ex is_delete pre \<and> \<not> list_ex is_create pre \<and> \<not> list_ex is_doc_write pre"
  using assms
  by (cases "postItems env (resolve paramCase vars c) items d";
      cases "fst (snd (postItems env (resolve paramCase vars c) items d))")
     (simp_all add: script_def main_def doSync_def logTable_def Let_def createClient_resolve)

lemma run_cases:
  assumes "\<not> (length (args c) \<noteq> 1 \<or> \<not> credentials_set vars \<or> \<not> health_resp env
           \<or> entries_resp env = None \<or> entries_resp env = Some [])"
  obtains items where "length (args c) = 1" "credentials_set vars" "health_resp env"
    "entries_resp env = Some items" "items \<noteq> []"
  using assms by (cases "entries_resp env") auto



lemma postItems_exit_calls: "exit_calls (fst (postItems env p items d)) = []"
proof (cases "publish_path env p")
  case True
  from postItems_on_path [OF True, of items d] show ?thesis
    by (auto simp: exit_calls_append postLoop_exit_calls)
next
  case False
  from postItems_off_path [OF False, of items d] show ?thesis
    by auto
qed


lemma happens_before_no_B: "\<not> list_ex B t \<Longrightarrow> happens_before A B t"
  by (induction t) simp_all

lemma happens_before_append_pre:
  "\<not> list_ex A pre \<Longrightarrow> \<not> list_ex B pre \<Longrightarrow> happens_before A B (pre @ t) = happens_before A B t"
  by (induction pre) simp_all

lemma happens_before_append_tail:
  "happens_before A B t \<Longrightarrow> \<not> list_ex B tail \<Longrightarrow> happens_before A B (t @ tail)"
  by (induction t) (simp_all add: happens_before_no_B)

lemma exit_status_zero_iff:
  "exit_status (fst (script paramCase env vars c d)) = 0 \<longleftrightarrow>
     length (args c) = 1
     \<and> (\<not> credentials_set vars
        \<or> health_resp env
          \<and> (\<exists>items. entries_resp env = Some items \<and> items \<noteq> []
               \<and> (case fst (snd (postItems env (resolve paramCase vars c) items d)) of
                     Inr status \<Rightarrow> status = 0
                   | Inl e \<Rightarrow> True)))"
proof (cases "length (args c) \<noteq> 1 \<or> \<not> credentials_set vars \<or> \<not> health_resp env
              \<or> entries_resp env = None \<or> entries_resp env = Some []")
  case True
  from script_abort_runs [OF True, of paramCase d] True show ?thesis
    by (auto simp: exit_status_def split: if_splits)
next
  case False
  then obtain items where run: "length (args c) = 1" "credentials_set vars" "health_resp env"
      "entries_resp env = Some items" "items \<noteq> []"
    by (rule run_cases)
  from script_post_runs [OF run, of paramCase d]
    postItems_exit_calls [of env "resolve paramCase vars c" items d] run
  show ?thesis
    by (auto simp: exit_status_def exit_calls_append split: sum.splits if_splits)
qed

section \<open>The two publish loops at the destination's document writes\<close>

lemma postLoop_research_hub_sync_Cons:
  "postLoop_research_hub_sync env p (entry # items) f d =
     (let c = PutDoc (js_template (ELASTICSEARCH_URL p)) (INDEX_NAME p) (sys_id entry) entry;
          r = doc_write env d c;
          rest = postLoop_research_hub_sync env p items (if fst r then f else f + 1) (snd r)
      in (DocWrite c (fst r) # (if \<not> fst r \<and> VERBOSE p then [ErrorDetail] else []) @ fst rest,
          fst (snd rest), snd (snd rest)))"
  by (simp add: Let_def split: prod.splits)

lemma put_loop_step:
  assumes "doc_write env = es_doc_write"
  shows "snd (postLoop_research_hub_sync env p (entry # items) f docs) =
           snd (postLoop_research_hub_sync env p items f
             (docs((INDEX_NAME p, sys_id entry) \<mapsto> entry)))"
  using assms
  by (simp add: postLoop_research_hub_sync_Cons Let_def del: postLoop_research_hub_sync.simps(2))

lemma create_loop_step_new:
  assumes "doc_write env = es_doc_write" and "docs (INDEX_NAME p, sys_id entry) = None"
  shows "snd (postLoop env p (entry # items) f docs) =
           snd (postLoop env p items f (docs((INDEX_NAME p, sys_id entry) \<mapsto> entry)))"
  using assms
  by (simp add: postLoop_Cons Let_def del: postLoop.simps(2))

lemma create_loop_step_old:
  assumes "doc_write env = es_doc_write" and "docs (INDEX_NAME p, sys_id entry) = Some v"
  shows "snd (postLoop env p (entry # items) f docs) = snd (postLoop env p items (f + 1) docs)"
  using assms
  by (simp add: postLoop_Cons Let_def del: postLoop.simps(2))

lemma distinct_ids_other_key:
  assumes "distinct (map sys_id (entry # items))" and "x \<in> set items"
  shows "(n, sys_id x) \<noteq> (n, sys_id entry)"
proof
  assume "(n, sys_id x) = (n, sys_id entry)"
  then have "sys_id x = sys_id entry"
    by simp
  with assms(2) have "sys_id entry \<in> sys_id ` set items"
    by (metis imageI)
  with assms(1) show False
    by simp
qed

lemma put_loop_no_failures:
  assumes "doc_write env = es_doc_write"
  shows "fst (snd (postLoop_research_hub_sync env p items f docs)) = f"
proof (induction items arbitrary: docs)
  case Nil
  show ?case by simp
next
  case (Cons entry items)
  show ?case
    unfolding put_loop_step [OF assms] by (rule Cons.IH)
qed

lemma put_loop_other_keys:
  assumes "doc_write env = es_doc_write" and "\<And>x. x \<in> set items \<Longrightarrow> (INDEX_NAME p, sys_id x) \<noteq> k"
  shows "snd (snd (postLoop_research_hub_sync env p items f docs)) k = docs k"
  using assms(2)
proof (induction items arbitrary: docs)
  case Nil
  show ?case by simp
next
  case (Cons entry items)
  have "snd (snd (postLoop_research_hub_sync env p items f
          (docs((INDEX_NAME p, sys_id entry) \<mapsto> entry)))) k
        = (docs((INDEX_NAME p, sys_id entry) \<mapsto> entry)) k"
    by (rule Cons.IH) (simp add: Cons.prems)
  also have "\<dots> = docs k"
    using Cons.prems [of entry] by simp
  finally show ?case
    unfolding put_loop_step [OF assms(1)] .
qed

lemma put_loop_stores:
  assumes "doc_write env = es_doc_write" and "distinct (map sys_id items)" and "e \<in> set items"
  shows "snd (snd (postLoop_research_hub_sync env p items f docs)) (INDEX_NAME p, sys_id e) = Some e"
  using assms(2,3)
proof (induction items arbitrary: docs)
  case Nil
  then show ?case by simp
next
  case (Cons entry items)
  let ?docs1 = "docs((INDEX_NAME p, sys_id entry) \<mapsto> entry)"
  show ?case
  proof (cases "e = entry")
    case True
    have "snd (snd (postLoop_research_hub_sync env p items f ?docs1)) (INDEX_NAME p, sys_id entry)
          = ?docs1 (INDEX_NAME p, sys_id entry)"
      using assms(1) distinct_ids_other_key [OF Cons.prems(1)] by (rule put_loop_other_keys)
    then show ?thesis
      unfolding put_loop_step [OF assms(1)] True by simp
  next
    case False
    from False Cons.prems(2) have in_items: "e \<in> set items"
      by simp
    from Cons.prems(1) have dist: "distinct (map sys_id items)"
      by simp
    show ?thesis
      unfolding put_loop_step [OF assms(1)] using dist in_items by (rule Cons.IH)
  qed
qed

lemma create_loop_keeps_documents:
  assumes "doc_write env = es_doc_write" and "docs k = Some v"
  shows "snd (snd (postLoop env p items f docs)) k = Some v"
  using assms(2)
proof (induction items arbitrary: f docs)
  case Nil
  then show ?case by simp
next
  case (Cons entry items)
  show ?case
  proof (cases "docs (INDEX_NAME p, sys_id entry)")
    case None
    with Cons.prems have "(docs((INDEX_NAME p, sys_id entry) \<mapsto> entry)) k = Some v"
      by auto
    then show ?thesis
      unfolding create_loop_step_new [where docs = docs and p = p and entry = entry, OF assms(1) None] by (rule Cons.IH)
  next
    case (Some old)
    show ?thesis
      unfolding create_loop_step_old [where docs = docs and p = p and entry = entry, OF assms(1) Some] using Cons.prems by (rule Cons.IH)
  qed
qed

lemma create_loop_all_present:
  assumes "doc_write env = es_doc_write"
    and "\<And>x. x \<in> set items \<Longrightarrow> docs (INDEX_NAME p, sys_id x) \<noteq> None"
  shows "snd (postLoop env p items f docs) = (f + length items, docs)"
  using assms(2)
proof (induction items arbitrary: f)
  case Nil
  show ?case by simp
next
  case (Cons entry items)
  from Cons.prems [of entry] obtain old where old: "docs (INDEX_NAME p, sys_id entry) = Some old"
    by auto
  have "snd (postLoop env p items (f + 1) docs) = (f + 1 + length items, docs)"
    by (rule Cons.IH) (simp add: Cons.prems)
  then show ?case
    unfolding create_loop_step_old [where docs = docs and p = p and entry = entry, OF assms(1) old] by simp
qed

lemma create_loop_leaves_present:
  assumes "doc_write env = es_doc_write" and "e \<in> set items"
  shows "snd (snd (postLoop env p items f docs)) (INDEX_NAME p, sys_id e) \<noteq> None"
  using assms(2)
proof (induction items arbitrary: f docs)
  case Nil
  then show ?case by simp
next
  case (Cons entry items)
  show ?case
  proof (cases "docs (INDEX_NAME p, sys_id entry)")
    case None
    let ?docs1 = "docs((INDEX_NAME p, sys_id entry) \<mapsto> entry)"
    show ?thesis
    proof (cases "e = entry")
      case True
      have "?docs1 (INDEX_NAME p, sys_id entry) = Some entry"
        by simp
      with assms(1) have "snd (snd (postLoop env p items f ?docs1)) (INDEX_NAME p, sys_id entry)
          = Some entry"
        by (rule create_loop_keeps_documents)
      then show ?thesis
        unfolding create_loop_step_new [where docs = docs and p = p and entry = entry, OF assms(1) None] True by simp
    next
      case False
      with Cons.prems have "e \<in> set items"
        by simp
      then show ?thesis
        unfolding create_loop_step_new [where docs = docs and p = p and entry = entry, OF assms(1) None] by (rule Cons.IH)
    qed
  next
    case (Some old)
    show ?thesis
    proof (cases "e = entry")
      case True
      from assms(1) Some have "snd (snd (postLoop env p items (f + 1) docs))
          (INDEX_NAME p, sys_id entry) = Some old"
        by (rule create_loop_keeps_documents)
      then show ?thesis
        unfolding create_loop_step_old [where docs = docs and p = p and entry = entry, OF assms(1) Some] True by simp
    next
      case False
      with Cons.prems have "e \<in> set items"
        by simp
      then show ?thesis
        unfolding create_loop_step_old [where docs = docs and p = p and entry = entry, OF assms(1) Some] by (rule Cons.IH)
    qed
  qed
qed

lemma create_loop_fresh:
  assumes "doc_write env = es_doc_write" and "distinct (map sys_id items)"
    and "\<And>x. x \<in> set items \<Longrightarrow> docs (INDEX_NAME p, sys_id x) = None"
  shows "fst (snd (postLoop env p items f docs)) = f
         \<and> (\<forall>e \<in> set items.
               snd (snd (postLoop env p items f docs)) (INDEX_NAME p, sys_id e) = Some e)"
  using assms(2,3)
proof (induction items arbitrary: docs)
  case Nil
  then show ?case by simp
next
  case (Cons entry items)
  let ?k = "(INDEX_NAME p, sys_id entry)"
  let ?docs1 = "docs(?k \<mapsto> entry)"
  have none: "docs ?k = None"
    by (rule Cons.prems(2)) simp
  have dist: "distinct (map sys_id items)"
    using Cons.prems(1) by simp
  have fresh: "?docs1 (INDEX_NAME p, sys_id x) = None" if "x \<in> set items" for x
  proof -
    from Cons.prems(1) that have "(INDEX_NAME p, sys_id x) \<noteq> ?k"
      by (rule distinct_ids_other_key)
    moreover from that have "docs (INDEX_NAME p, sys_id x) = None"
      by (simp add: Cons.prems(2))
    ultimately show ?thesis
      by simp
  qed
  have IH: "fst (snd (postLoop env p items f ?docs1)) = f
         \<and> (\<forall>e \<in> set items.
               snd (snd (postLoop env p items f ?docs1)) (INDEX_NAME p, sys_id e) = Some e)"
    using dist fresh by (rule Cons.IH)
  have "?docs1 ?k = Some entry"
    by simp
  with assms(1) have kept: "snd (snd (postLoop env p items f ?docs1)) ?k = Some entry"
    by (rule create_loop_keeps_documents)
  from IH kept show ?case
    unfolding create_loop_step_new [where docs = docs and p = p and entry = entry, OF assms(1) none] by simp
qed

section \<open>The publish loop of src/index.js\<close>

lemma postLoop_index_js_Cons:
  "postLoop_index_js env vars argv (entry # items) f d =
     (let c = PutDoc (js_template (ELASTICSEARCH_URL_var vars)) (INDEX_NAME_index_js argv)
                (sys_id entry) entry;
          r = doc_write env d c;
          rest = postLoop_index_js env vars argv items (if fst r then f else f + 1) (snd r)
      in (DocWrite c (fst r) # (if \<not> fst r \<and> \<not> QUIET_index_js then [ErrorDetail] else [])
            @ fst rest,
          fst (snd rest), snd (snd rest)))"
  by (simp add: Let_def split: prod.splits)

lemma postLoop_index_js_exit_calls:
  "exit_calls (fst (postLoop_index_js env vars argv items f d)) = []"
  by (induction items arbitrary: f d)
     (simp_all add: postLoop_index_js_Cons Let_def del: postLoop_index_js.simps(2))

lemma published_once_eq:
  "published_once = [(''research-hub-master-article'', ''a'') \<mapsto> item_a,
                     (''research-hub-master-article'', ''b'') \<mapsto> item_b]"
  by (simp add: published_once_def script_defs sample_defs)

section \<open>The claims\<close>

text \<open>
  C1. The claim: the exit status is 0 exactly when the fetch succeeded with at least one
  item, the index existed or was made ready, and every write succeeded; it is 1 in every
  other case. The run below disagrees: the fetch returns two items, the index is absent,
  the create of the index is rejected, no document is written, and the exit status is 0.
  In general (\<open>exit_status_zero_iff\<close>) the status is 0 exactly when something throws
  inside the \<open>try\<close> block (\<open>createClient\<close>, or \<open>postItems\<close>), or
  \<open>postItems\<close> returns 0.
\<close>

theorem exit_status_zero_when_index_create_rejected:
  "exit_status (fst (script id ((sample_env accept_all)
      \<lparr> exists_resp := Some False, create_resp := None \<rparr>) sample_vars sample_cli ())) = 0
   \<and> doc_calls (fst (script id ((sample_env accept_all)
      \<lparr> exists_resp := Some False, create_resp := None \<rparr>) sample_vars sample_cli ())) = []
   \<and> fetch_calls (fst (script id ((sample_env accept_all)
      \<lparr> exists_resp := Some False, create_resp := None \<rparr>) sample_vars sample_cli ()))
      = [(0, 1000, ''article'')]"
  by (simp add: script_defs sample_defs)

text \<open>
  C2. The claim: a rejected delete or create of the index is only logged, and the run goes
  on to the publish loop. The run below disagrees: with \<open>--reset\<close> and an existing
  index, a rejected delete makes \<open>postItems\<close> throw; the create is never issued and no
  document is written, although the destination would accept every one.
\<close>

theorem rejected_delete_aborts_publish:
  "fst (snd (postItems ((sample_env accept_all) \<lparr> delete_resp := None \<rparr>)
      (sample_params \<lparr> RESET := True \<rparr>) [item_a, item_b] ())) = Inl TypeError
   \<and> fst (postItems ((sample_env accept_all) \<lparr> delete_resp := None \<rparr>)
      (sample_params \<lparr> RESET := True \<rparr>) [item_a, item_b] ())
      = [IndicesExists ''research-hub-master-article'' (Some True), Log (ExistingIndex True),
         Log ResetNotice, IndicesDelete ''research-hub-master-article'' None]
   \<and> doc_calls (fst (script id ((sample_env accept_all) \<lparr> delete_resp := None \<rparr>)
      sample_vars (sample_cli \<lparr> reset := True \<rparr>) ())) = []"
  by (simp add: script_defs sample_defs)

text \<open>
  C3, as stated, fails on the canonical script: after one run has published the page into
  an empty index, a second run over the same page has both writes rejected and exits
  with status 1; and a run over a new version of item \<open>a\<close> has its write rejected and
  leaves the first version in the index.
\<close>

theorem republish_with_create_counterexample:
  "exit_status (fst (script id (sample_env es_doc_write) sample_vars sample_cli Map.empty)) = 0
   \<and> fst (snd (postItems (sample_env es_doc_write) sample_params [item_a, item_b] published_once))
       = Inr 2
   \<and> exit_status (fst (script id (sample_env es_doc_write) sample_vars sample_cli published_once)) = 1
   \<and> fst (snd (postItems (sample_env es_doc_write) sample_params [item_a_v2] published_once))
       = Inr 1
   \<and> snd (snd (postItems (sample_env es_doc_write) sample_params [item_a_v2] published_once))
       (''research-hub-master-article'', ''a'') = Some item_a"
  by (simp add: published_once_eq script_defs sample_defs item_a_v2_def)

text \<open>
  C3, amended. Each item is written under its \<open>sys.id\<close> with the whole item as the
  body, and (the ids of a page being distinct):
  \<^item> with the \<open>PUT\<close> of research-hub-sync.js (lines 87 to 101) the write is an
    upsert: whatever the
    index holds, publishing a page reports zero failures and leaves every item of the
    page stored under its id;
  \<^item> with \<open>esClient.create\<close> of the canonical script the write is create-only: a
    document of the index is never replaced; a page none of whose ids has a document is
    published with zero failures and every item stored under its id; and publishing the
    same page again fails for every item and leaves the index as it was.
\<close>

theorem upsert_with_put_create_only_with_client:
  assumes "doc_write env = es_doc_write" and "distinct (map sys_id items)"
  shows "fst (snd (postLoop_research_hub_sync env p items 0 docs)) = 0
         \<and> (\<forall>e \<in> set items.
              snd (snd (postLoop_research_hub_sync env p items 0 docs)) (INDEX_NAME p, sys_id e)
                = Some e)
         \<and> (docs k = Some v \<longrightarrow> snd (snd (postLoop env p items 0 docs)) k = Some v)
         \<and> ((\<forall>e \<in> set items. docs (INDEX_NAME p, sys_id e) = None) \<longrightarrow>
              fst (snd (postLoop env p items 0 docs)) = 0
              \<and> (\<forall>e \<in> set items.
                   snd (snd (postLoop env p items 0 docs)) (INDEX_NAME p, sys_id e) = Some e))
         \<and> fst (snd (postLoop env p items 0 (snd (snd (postLoop env p items 0 docs)))))
             = length items
         \<and> snd (snd (postLoop env p items 0 (snd (snd (postLoop env p items 0 docs)))))
             = snd (snd (postLoop env p items 0 docs))"
proof -
  let ?docs1 = "snd (snd (postLoop env p items 0 docs))"
  have put: "fst (snd (postLoop_research_hub_sync env p items 0 docs)) = 0"
    using assms(1) by (rule put_loop_no_failures)
  have stored: "\<forall>e \<in> set items.
      snd (snd (postLoop_research_hub_sync env p items 0 docs)) (INDEX_NAME p, sys_id e) = Some e"
    using assms by (blast intro: put_loop_stores)
  have kept: "docs k = Some v \<longrightarrow> ?docs1 k = Some v"
    using assms(1) by (blast intro: create_loop_keeps_documents)
  have fresh: "(\<forall>e \<in> set items. docs (INDEX_NAME p, sys_id e) = None) \<longrightarrow>
      fst (snd (postLoop env p items 0 docs)) = 0
      \<and> (\<forall>e \<in> set items. ?docs1 (INDEX_NAME p, sys_id e) = Some e)"
  proof
    assume none: "\<forall>e \<in> set items. docs (INDEX_NAME p, sys_id e) = None"
    show "fst (snd (postLoop env p items 0 docs)) = 0
      \<and> (\<forall>e \<in> set items. ?docs1 (INDEX_NAME p, sys_id e) = Some e)"
      using assms by (rule create_loop_fresh) (simp add: none)
  qed
  have present: "?docs1 (INDEX_NAME p, sys_id x) \<noteq> None" if "x \<in> set items" for x
    using assms(1) that by (rule create_loop_leaves_present)
  have "snd (postLoop env p items 0 ?docs1) = (0 + length items, ?docs1)"
    using assms(1) present by (rule create_loop_all_present)
  then have again: "fst (snd (postLoop env p items 0 ?docs1)) = length items"
      "snd (snd (postLoop env p items 0 ?docs1)) = ?docs1"
    by simp_all
  from put stored kept fresh again show ?thesis
    by blast
qed

theorem upsert_with_put_create_only_with_client_witness:
  "doc_write (sample_env es_doc_write) = es_doc_write
   \<and> distinct (map sys_id [item_a, item_b])
   \<and> (Map.empty :: es_docs) (INDEX_NAME sample_params, sys_id item_a) = None
   \<and> (Map.empty :: es_docs) (INDEX_NAME sample_params, sys_id item_b) = None
   \<and> fst (snd (postLoop (sample_env es_doc_write) sample_params [item_a, item_b] 0 Map.empty)) = 0
   \<and> fst (snd (postLoop (sample_env es_doc_write) sample_params [item_a, item_b] 0
        (snd (snd (postLoop (sample_env es_doc_write) sample_params [item_a, item_b] 0 Map.empty)))))
       = 2
   \<and> fst (snd (postLoop_research_hub_sync (sample_env es_doc_write) sample_params
        [item_a, item_b] 0 published_once)) = 0
   \<and> published_once (''research-hub-master-article'', ''a'') = Some item_a
   \<and> snd (snd (postLoop (sample_env es_doc_write) sample_params [item_a, item_b] 0 published_once))
        (''research-hub-master-article'', ''a'') = Some item_a"
proof -
  have h: "doc_write (sample_env es_doc_write) = es_doc_write"
      "distinct (map sys_id [item_a, item_b])"
    by (simp_all add: sample_env_def item_a_def item_b_def)
  have none: "\<forall>e \<in> set [item_a, item_b]. Map.empty (INDEX_NAME sample_params, sys_id e) = None"
    by simp
  have once: "published_once (''research-hub-master-article'', ''a'') = Some item_a"
    by (simp add: published_once_eq)
  from upsert_with_put_create_only_with_client
         [OF h, of sample_params Map.empty "(''research-hub-master-article'', ''a'')" item_a]
       upsert_with_put_create_only_with_client
         [OF h, of sample_params published_once "(''research-hub-master-article'', ''a'')" item_a]
       h none once
  show ?thesis
    by simp
qed




text \<open>
  C5, as stated, fails on src/index.js: with no argument after the script name the content
  type is \<open>contentItem\<close>, no usage is printed, the run goes to the network and the
  exit status is 0.
\<close>

theorem index_js_omitted_argument_counterexample:
  "fetch_calls (fst (script_index_js (sample_env accept_all) sample_vars [''node'', ''index.js''] ()))
     = [(0, 1000, ''contentItem'')]
   \<and> list_ex is_network
       (fst (script_index_js (sample_env accept_all) sample_vars [''node'', ''index.js''] ()))
   \<and> \<not> list_ex (\<lambda>e. e = OutputHelp)
       (fst (script_index_js (sample_env accept_all) sample_vars [''node'', ''index.js''] ()))
   \<and> exit_status
       (fst (script_index_js (sample_env accept_all) sample_vars [''node'', ''index.js''] ())) = 0"
  by (simp add: script_index_js_def doSync_index_js_def postItems_index_js_def
      CONTENT_TYPE_index_js_def INDEX_NAME_index_js_def ENVIRONMENT_index_js_def
      VERBOSE_index_js_def QUIET_index_js_def argv_at_def script_defs sample_defs)

text \<open>
  C5, amended: in the scripts that parse their command line (the canonical script and
  the script of research-hub-sync.js, lines 1 to 183), no invocation without the
  positional argument issues a request, and the destination is untouched. When
  \<open>.parse\<close> returns, the script prints the usage and exits with status 1. When
  commander ends the process inside \<open>.parse\<close>, the status is 0 after the usage
  (\<open>--help\<close>) or the version (\<open>-V\<close>), and 1, with an error message and no usage,
  after an unknown option or an option that lacks its argument. src/index.js has no such
  check.
\<close>

theorem omitted_argument_no_request:
  assumes "no_positional po"
  shows "\<not> list_ex is_network (fst (invoke paramCase env vars po d))
         \<and> snd (invoke paramCase env vars po d) = d
         \<and> invoke_research_hub_sync paramCase env vars po d = invoke paramCase env vars po d
         \<and> fst (invoke paramCase env vars po d) =
             (case po of
                Parsed c \<Rightarrow> [OutputHelp, ProcessExit 1]
              | HelpRequested \<Rightarrow> [OutputHelp, ProcessExit 0]
              | VersionRequested \<Rightarrow> [OutputVersion, ProcessExit 0]
              | UnknownOption \<Rightarrow> [ParseErrorMessage, ProcessExit 1]
              | MissingOptionArgument \<Rightarrow> [ParseErrorMessage, ProcessExit 1])
         \<and> exit_status (fst (invoke paramCase env vars po d)) =
             (case po of
                Parsed c \<Rightarrow> 1
              | HelpRequested \<Rightarrow> 0
              | VersionRequested \<Rightarrow> 0
              | UnknownOption \<Rightarrow> 1
              | MissingOptionArgument \<Rightarrow> 1)"
  using assms
  by (cases po)
     (simp_all add: invoke_def invoke_research_hub_sync_def script_def
        script_research_hub_sync_def exit_status_def)

theorem omitted_argument_no_request_witness:
  "no_positional (Parsed (sample_cli \<lparr> args := [] \<rparr>))
   \<and> invoke id (sample_env accept_all) sample_vars (Parsed (sample_cli \<lparr> args := [] \<rparr>)) ()
       = ([OutputHelp, ProcessExit 1], ())
   \<and> exit_status (fst (invoke id (sample_env accept_all) sample_vars
        (Parsed (sample_cli \<lparr> args := [] \<rparr>)) ())) = 1
   \<and> no_positional HelpRequested
   \<and> exit_status (fst (invoke id (sample_env accept_all) sample_vars HelpRequested ())) = 0"
proof -
  have h: "no_positional (Parsed (sample_cli \<lparr> args := [] \<rparr>))" "no_positional HelpRequested"
    by simp_all
  have a: "invoke id (sample_env accept_all) sample_vars (Parsed (sample_cli \<lparr> args := [] \<rparr>)) ()
       = ([OutputHelp, ProcessExit 1], ())"
    using omitted_argument_no_request
            [OF h(1), of id "sample_env accept_all" sample_vars "()"]
    by (cases "invoke id (sample_env accept_all) sample_vars
          (Parsed (sample_cli \<lparr> args := [] \<rparr>)) ()") simp
  from omitted_argument_no_request [OF h(1), of id "sample_env accept_all" sample_vars "()"]
       omitted_argument_no_request [OF h(2), of id "sample_env accept_all" sample_vars "()"]
       h a
  show ?thesis
    by (simp add: exit_status_def)
qed




text \<open>
  C7. With the reset flag set and the index found, \<open>postItems\<close> issues the delete; no
  create of the index is issued until the delete has settled, and no document write is
  issued until the create has settled; on the publish path the create is issued. The same
  order holds in the whole run of the script.
\<close>

theorem reset_delete_create_publish_order:
  assumes "reset c" and "exists_resp env = Some True"
  shows "list_ex is_delete (fst (postItems env (resolve paramCase vars c) items d))
         \<and> happens_before is_delete is_create (fst (postItems env (resolve paramCase vars c) items d))
         \<and> happens_before is_create is_doc_write
             (fst (postItems env (resolve paramCase vars c) items d))
         \<and> (publish_path env (resolve paramCase vars c) \<longrightarrow>
              list_ex is_create (fst (postItems env (resolve paramCase vars c) items d)))
         \<and> happens_before is_delete is_create (fst (script paramCase env vars c d))
         \<and> happens_before is_create is_doc_write (fst (script paramCase env vars c d))"
proof -
  let ?p = "resolve paramCase vars c"
  have r: "RESET ?p"
    using assms(1) by (simp add: resolve_def Let_def)
  have post: "list_ex is_delete (fst (postItems env ?p xs d))
         \<and> happens_before is_delete is_create (fst (postItems env ?p xs d))
         \<and> happens_before is_create is_doc_write (fst (postItems env ?p xs d))
         \<and> (publish_path env ?p \<longrightarrow> list_ex is_create (fst (postItems env ?p xs d)))" for xs
    using r assms(2)
    by (cases "delete_resp env"; cases "create_resp env")
       (simp_all add: postItems_def publish_path_def resetIndex_def createIndexStep_def Let_def
          split: prod.splits)
  have whole: "happens_before is_delete is_create (fst (script paramCase env vars c d))
         \<and> happens_before is_create is_doc_write (fst (script paramCase env vars c d))"
  proof (cases "length (args c) \<noteq> 1 \<or> \<not> credentials_set vars \<or> \<not> health_resp env
                \<or> entries_resp env = None \<or> entries_resp env = Some []")
    case True
    from script_abort_runs [OF True, of paramCase d] show ?thesis
      by (auto simp: happens_before_no_B)
  next
    case False
    then obtain page where run: "length (args c) = 1" "credentials_set vars" "health_resp env"
        "entries_resp env = Some page" "page \<noteq> []"
      by (rule run_cases)
    define tail where "tail =
      (case fst (snd (postItems env ?p page d)) of
         Inr status \<Rightarrow> [ProcessExit (if status \<noteq> 0 then 1 else 0)]
       | Inl e \<Rightarrow> if VERBOSE ?p then [ErrorDetail] else [])"
    have tail: "\<not> list_ex is_create tail" "\<not> list_ex is_doc_write tail"
      by (simp_all add: tail_def split: sum.splits)
    from script_post_runs [OF run, of paramCase d] obtain pre where
      "script paramCase env vars c d =
         (pre @ fst (postItems env ?p page d) @ tail, snd (snd (postItems env ?p page d)))"
      and quiet: "\<not> list_ex is_delete pre" "\<not> list_ex is_create pre" "\<not> list_ex is_doc_write pre"
      unfolding tail_def by blast
    then have shape:
      "fst (script paramCase env vars c d) = pre @ fst (postItems env ?p page d) @ tail"
      by simp
    from post [of page] quiet tail show ?thesis
      unfolding shape
      by (simp add: happens_before_append_pre happens_before_append_tail)
  qed
  from post [of items] whole show ?thesis
    by simp
qed

theorem reset_delete_create_publish_order_witness:
  "reset (sample_cli \<lparr> reset := True \<rparr>)
   \<and> exists_resp (sample_env accept_all) = Some True
   \<and> publish_path (sample_env accept_all) (resolve id sample_vars (sample_cli \<lparr> reset := True \<rparr>))
   \<and> happens_before is_delete is_create
       (fst (script id (sample_env accept_all) sample_vars (sample_cli \<lparr> reset := True \<rparr>) ()))
   \<and> happens_before is_create is_doc_write
       (fst (script id (sample_env accept_all) sample_vars (sample_cli \<lparr> reset := True \<rparr>) ()))
   \<and> fst (postItems (sample_env accept_all)
        (resolve id sample_vars (sample_cli \<lparr> reset := True \<rparr>)) [item_a, item_b] ())
       = [IndicesExists ''research-hub-master-article'' (Some True), Log (ExistingIndex True),
          Log ResetNotice, IndicesDelete ''research-hub-master-article'' (Some True),
          Log (Deleted True), IndicesCreate ''research-hub-master-article'' (Some True),
          Log (AutoCreated True),
          DocWrite (ClientCreate ''research-hub-master-article'' ''_doc'' ''a'' item_a) True,
          DocWrite (ClientCreate ''research-hub-master-article'' ''_doc'' ''b'' item_b) True,
          Log (Posted True 2 0)]"
proof -
  have h: "reset (sample_cli \<lparr> reset := True \<rparr>)"
      "exists_resp (sample_env accept_all) = Some True"
    by (simp_all add: sample_env_def)
  have p: "publish_path (sample_env accept_all)
      (resolve id sample_vars (sample_cli \<lparr> reset := True \<rparr>))"
    by (simp add: publish_path_def sample_env_def resolve_def Let_def)
  have t: "fst (postItems (sample_env accept_all)
        (resolve id sample_vars (sample_cli \<lparr> reset := True \<rparr>)) [item_a, item_b] ())
       = [IndicesExists ''research-hub-master-article'' (Some True), Log (ExistingIndex True),
          Log ResetNotice, IndicesDelete ''research-hub-master-article'' (Some True),
          Log (Deleted True), IndicesCreate ''research-hub-master-article'' (Some True),
          Log (AutoCreated True),
          DocWrite (ClientCreate ''research-hub-master-article'' ''_doc'' ''a'' item_a) True,
          DocWrite (ClientCreate ''research-hub-master-article'' ''_doc'' ''b'' item_b) True,
          Log (Posted True 2 0)]"
    by (simp add: script_defs sample_defs)
  from reset_delete_create_publish_order [OF h, of id sample_vars "[item_a, item_b]" "()"] h p t
  show ?thesis
    by blast
qed

text \<open>
  C8. In a run of the canonical script in which the delete or the create of the index is
  rejected, \<open>postItems\<close> throws the \<open>TypeError\<close>, \<open>process.exit\<close> is never
  called, no document is written, the destination is as it was, and the exit status is 0.
\<close>

theorem rejected_index_call_exits_zero:
  assumes rej: "list_ex index_call_rejected (fst (script paramCase env vars c d))"
  shows "exit_calls (fst (script paramCase env vars c d)) = []
         \<and> exit_status (fst (script paramCase env vars c d)) = 0
         \<and> doc_calls (fst (script paramCase env vars c d)) = []
         \<and> snd (script paramCase env vars c d) = d
         \<and> (\<exists>items. entries_resp env = Some items
              \<and> fst (snd (postItems env (resolve paramCase vars c) items d)) = Inl TypeError
              \<and> fst (snd (doSync env (resolve paramCase vars c) d)) = Inl TypeError)"
proof -
  let ?p = "resolve paramCase vars c"
  have "\<not> (length (args c) \<noteq> 1 \<or> \<not> credentials_set vars \<or> \<not> health_resp env
             \<or> entries_resp env = None \<or> entries_resp env = Some [])"
  proof
    assume "length (args c) \<noteq> 1 \<or> \<not> credentials_set vars \<or> \<not> health_resp env
               \<or> entries_resp env = None \<or> entries_resp env = Some []"
    from script_abort_runs [OF this, of paramCase d] rej show False
      by auto
  qed
  then obtain items where run: "length (args c) = 1" "credentials_set vars" "health_resp env"
    and items: "entries_resp env = Some items" "items \<noteq> []"
    by (rule run_cases)
  from script_post_runs [OF run items, of paramCase d] obtain pre where
    shape: "script paramCase env vars c d =
       (pre @ fst (postItems env ?p items d)
          @ (case fst (snd (postItems env ?p items d)) of
               Inr status \<Rightarrow> [ProcessExit (if status \<noteq> 0 then 1 else 0)]
             | Inl e \<Rightarrow> if VERBOSE ?p then [ErrorDetail] else []),
        snd (snd (postItems env ?p items d)))"
    and pre: "doc_calls pre = []" "exit_calls pre = []" "\<not> list_ex index_call_rejected pre"
    by blast
  have in_post: "list_ex index_call_rejected (fst (postItems env ?p items d))"
    using rej shape pre by (auto split: sum.splits if_splits)
  have off: "\<not> publish_path env ?p"
  proof
    assume "publish_path env ?p"
    from postItems_on_path [OF this, of items d] in_post show False
      by (auto simp: postLoop_not_rejected)
  qed
  from postItems_off_path [OF off, of items d] in_post obtain t where
    post: "postItems env ?p items d = (t, Inl TypeError, d)"
    and t: "doc_calls t = []" "exit_calls t = []"
    by auto
  have sync: "fst (snd (doSync env ?p d)) = Inl TypeError"
    using items post by (simp add: doSync_def Let_def)
  from shape post t pre items sync show ?thesis
    by (simp add: exit_status_def exit_calls_append doc_calls_append)
qed

theorem rejected_index_call_exits_zero_witness:
  "list_ex index_call_rejected
     (fst (script id ((sample_env accept_all) \<lparr> delete_resp := None \<rparr>) sample_vars
        (sample_cli \<lparr> reset := True \<rparr>) ()))
   \<and> exit_calls
     (fst (script id ((sample_env accept_all) \<lparr> delete_resp := None \<rparr>) sample_vars
        (sample_cli \<lparr> reset := True \<rparr>) ())) = []
   \<and> exit_status
     (fst (script id ((sample_env accept_all) \<lparr> delete_resp := None \<rparr>) sample_vars
        (sample_cli \<lparr> reset := True \<rparr>) ())) = 0
   \<and> doc_calls
     (fst (script id ((sample_env accept_all) \<lparr> delete_resp := None \<rparr>) sample_vars
        (sample_cli \<lparr> reset := True \<rparr>) ())) = []"
proof -
  have h: "list_ex index_call_rejected
     (fst (script id ((sample_env accept_all) \<lparr> delete_resp := None \<rparr>) sample_vars
        (sample_cli \<lparr> reset := True \<rparr>) ()))"
    by (simp add: script_defs sample_defs)
  from rejected_index_call_exits_zero [OF h] h show ?thesis
    by simp
qed

text \<open>
  C9. No run of src/index.js calls \<open>process.exit\<close>, so every run ends with exit status
  0, whatever the health probe, the fetch and the document writes answer.
\<close>

theorem index_js_always_exits_zero:
  "exit_calls (fst (script_index_js env vars argv d)) = []
   \<and> exit_status (fst (script_index_js env vars argv d)) = 0"
proof -
  have post: "exit_calls (fst (postItems_index_js env vars argv items d)) = []" for items
  proof -
    obtain t fails d2 where "postLoop_index_js env vars argv items 0 d = (t, fails, d2)"
      by (cases "postLoop_index_js env vars argv items 0 d")
    with postLoop_index_js_exit_calls [of env vars argv items 0 d] show ?thesis
      by (simp add: postItems_index_js_def exit_calls_append)
  qed
  have sync: "exit_calls (fst (doSync_index_js env vars argv d)) = []"
  proof (cases "entries_resp env")
    case None
    then show ?thesis by (simp add: doSync_index_js_def Let_def)
  next
    case (Some items)
    obtain t d2 where "postItems_index_js env vars argv items d = (t, d2)"
      by (cases "postItems_index_js env vars argv items d")
    with Some post [of items] show ?thesis
      by (simp add: doSync_index_js_def Let_def logTable_def exit_calls_append)
  qed
  obtain t d2 where "doSync_index_js env vars argv d = (t, d2)"
    by (cases "doSync_index_js env vars argv d")
  with sync have "exit_calls (fst (script_index_js env vars argv d)) = []"
    by (cases "createClient (CONTENTFUL_SPACE_ID vars) (CONTENTFUL_ACCESS_TOKEN vars)")
       (simp_all add: script_index_js_def Let_def exit_calls_append)
  then show ?thesis
    by (simp add: exit_status_def)
qed

text \<open>
  C10. Whenever \<open>postItems\<close> reaches the publish loop, the document writes of the call
  are exactly one \<open>esClient.create\<close> per item of the page, in the order of the page,
  each with the index name, the type \<open>_doc\<close>, the item's \<open>sys.id\<close> as the id and the
  whole item as the body.
\<close>

theorem publish_loop_writes_in_page_order:
  assumes "publish_path env p"
  shows "doc_calls (fst (postItems env p items d)) =
           map (\<lambda>entry. ClientCreate (INDEX_NAME p) ''_doc'' (sys_id entry) entry) items"
proof -
  from postItems_on_path [OF assms, of items d] obtain pre where
    "fst (postItems env p items d) = pre @ fst (postLoop env p items 0 d)
       @ [Log (Posted (fst (snd (postLoop env p items 0 d)) = 0)
             (int (length items) - int (fst (snd (postLoop env p items 0 d))))
             (fst (snd (postLoop env p items 0 d))))]"
    and "doc_calls pre = []"
    by auto
  then show ?thesis
    by (simp add: doc_calls_append postLoop_doc_calls)
qed

theorem publish_loop_writes_in_page_order_witness:
  "publish_path (sample_env accept_all) sample_params
   \<and> doc_calls (fst (postItems (sample_env accept_all) sample_params [item_b, item_a] ())) =
       [ClientCreate ''research-hub-master-article'' ''_doc'' ''b'' item_b,
        ClientCreate ''research-hub-master-article'' ''_doc'' ''a'' item_a]"
proof -
  have h: "publish_path (sample_env accept_all) sample_params"
    by (simp add: publish_path_def sample_defs resolve_def Let_def)
  have n: "INDEX_NAME sample_params = ''research-hub-master-article''"
      "sys_id item_a = ''a''" "sys_id item_b = ''b''"
    by (simp_all add: sample_defs resolve_def js_or_def Let_def)
  from publish_loop_writes_in_page_order [OF h, of "[item_b, item_a]" "()"] h n show ?thesis
    by simp
qed

end
